theory Spec2Isabelle
  imports Complex_Main
begin

section \<open>The DEM preprocessor \<^verbatim>\<open>preprocess_dem.py\<close>\<close>

text \<open>
  The script has one function, \<^verbatim>\<open>main\<close>: it opens a raster with \<^verbatim>\<open>rasterio\<close>, reads
  band 1 resampled to the requested shape, derives the two coordinate axes with
  \<^verbatim>\<open>np.linspace\<close>, replaces nodata cells by \<^verbatim>\<open>None\<close> and dumps the result as JSON.

  Conventions of the embedding.
  \<^item> A Python \<^verbatim>\<open>float\<close> that may be special is a \<open>pyfloat\<close>: a finite value, carried as
    the real number it denotes, or one of \<^verbatim>\<open>inf\<close>, \<^verbatim>\<open>-inf\<close>, \<^verbatim>\<open>nan\<close>. Arithmetic on finite
    values is the arithmetic of the reals: rounding (and the \<^verbatim>\<open>astype(np.float32)\<close>
    narrowing of the band) is not modelled.
  \<^item> The raster bounds are finite floats and are carried as reals.
  \<^item> An exception is the \<open>Inl\<close> of a sum; it leaves \<^verbatim>\<open>main\<close> before
    \<^verbatim>\<open>open(out_path, 'w')\<close> is reached, so \<open>Inl\<close> also means that no document is written,
    and \<open>Inr doc\<close> is the dictionary handed to \<^verbatim>\<open>json.dump\<close>. Opening the output file
    and serialising are the last two statements and are not modelled further.
  \<^item> \<^verbatim>\<open>rasterio.open\<close> and the dataset's \<^verbatim>\<open>read\<close> are library code outside the script:
    the opener is a parameter of \<open>main\<close>, and the resampling read is a field of the
    dataset it returns.
  \<^item> The \<^verbatim>\<open>print\<close> calls have no effect on the result and are left out.
\<close>

subsection \<open>Values\<close>

datatype pyfloat = Fin real | PInf | NInf | NaN

datatype error =
    RasterioIOError      \<comment> \<open>raised by \<^verbatim>\<open>rasterio.open\<close> or by \<^verbatim>\<open>read\<close>\<close>
  | ValueError           \<comment> \<open>raised by numpy (negative sample count or dimension)\<close>
  | InvalidDimension     \<comment> \<open>named by the specification only\<close>
  | EmptySource          \<comment> \<open>named by the specification only\<close>

text \<open>Python's \<^verbatim>\<open>==\<close> on floats: \<^verbatim>\<open>nan\<close> equals nothing, itself included.\<close>

fun py_eq :: "pyfloat \<Rightarrow> pyfloat \<Rightarrow> bool" where
  "py_eq (Fin a) (Fin b) = (a = b)"
| "py_eq PInf PInf = True"
| "py_eq NInf NInf = True"
| "py_eq _ _ = False"

subsection \<open>The two numpy functions the script calls\<close>

text \<open>
  \<^verbatim>\<open>np.isclose(a, b)\<close> with its defaults \<^verbatim>\<open>rtol=1e-05\<close>, \<^verbatim>\<open>atol=1e-08\<close>,
  \<^verbatim>\<open>equal_nan=False\<close>. numpy computes
  \<^verbatim>\<open>(abs(a - b) <= atol + rtol * abs(b)) & isfinite(b) | (a == b)\<close>:
  two finite values are compared within the tolerance (which is relative to the
  second argument), and as soon as one argument is not finite the result is \<^verbatim>\<open>a == b\<close>.
\<close>

definition rtol :: real where
  "rtol = 1 / 10 ^ 5"

definition atol :: real where
  "atol = 1 / 10 ^ 8"

fun isclose :: "pyfloat \<Rightarrow> pyfloat \<Rightarrow> bool" where
  "isclose (Fin a) (Fin b) = (\<bar>a - b\<bar> \<le> atol + rtol * \<bar>b\<bar>)"
| "isclose a b = py_eq a b"

text \<open>
  \<^verbatim>\<open>np.linspace(start, stop, num)\<close> with \<^verbatim>\<open>endpoint=True\<close>, followed by \<^verbatim>\<open>.tolist()\<close>.
  numpy raises \<^verbatim>\<open>ValueError\<close> for a negative \<^verbatim>\<open>num\<close>; otherwise, with \<^verbatim>\<open>div = num - 1\<close>
  and \<^verbatim>\<open>delta = stop - start\<close>, it scales \<^verbatim>\<open>arange(0, num)\<close> by \<^verbatim>\<open>step = delta / div\<close>
  (by \<^verbatim>\<open>/ div * delta\<close> when the step is zero, by \<^verbatim>\<open>delta\<close> when \<^verbatim>\<open>div\<close> is not
  positive), adds \<^verbatim>\<open>start\<close>, and for \<^verbatim>\<open>num > 1\<close> overwrites the last sample by \<^verbatim>\<open>stop\<close>.
\<close>

definition linspace :: "real \<Rightarrow> real \<Rightarrow> int \<Rightarrow> error + real list" where
  "linspace start stop num =
     (if num < 0 then Inl ValueError
      else
        let dv = num - 1;
            delta = stop - start;
            y = map real [0..<nat num];
            y = (if dv > 0 then
                   (let step = delta / real_of_int dv in
                    if step = 0 then map (\<lambda>v. v / real_of_int dv * delta) y
                    else map (\<lambda>v. v * step) y)
                 else map (\<lambda>v. v * delta) y);
            y = map (\<lambda>v. v + start) y;
            y = (if num > 1 then y[nat num - 1 := stop] else y)
        in Inr y)"

subsection \<open>Command line, dataset and output document\<close>

record args =
  src_path :: string    \<comment> \<open>\<^verbatim>\<open>args.input\<close>\<close>
  out_path :: string    \<comment> \<open>\<^verbatim>\<open>args.output\<close>\<close>
  nx :: int
  ny :: int
  nodata :: "pyfloat option"

text \<open>
  The opened dataset \<^verbatim>\<open>src\<close>. \<open>bounds\<close> is \<^verbatim>\<open>(left, bottom, right, top)\<close>. \<open>read ny nx\<close>
  stands for \<^verbatim>\<open>src.read(1, out_shape=(1, ny, nx), resampling=Resampling.bilinear)\<close>
  followed by \<^verbatim>\<open>.astype(np.float32)\<close>, as nested lists.
\<close>

record dataset =
  crs :: "string option"
  bounds :: "real \<times> real \<times> real \<times> real"
  src_nodata :: "pyfloat option"
  width :: nat
  height :: nat
  read :: "int \<Rightarrow> int \<Rightarrow> error + pyfloat list list"

text \<open>The dictionary \<^verbatim>\<open>out\<close>; a cell of \<open>elev\<close> is a float or \<^verbatim>\<open>None\<close>.\<close>

record document =
  bbox :: "real list"
  ncols :: int
  nrows :: int
  lons :: "real list"
  lats :: "real list"
  elev :: "pyfloat option list list"

subsection \<open>Nodata substitution (the nested loop)\<close>

text \<open>
  The inner loop visits every index \<^verbatim>\<open>j\<close> of a row once and stores \<^verbatim>\<open>None\<close> where
  \<^verbatim>\<open>np.isclose(row[j], nodata)\<close> holds; the outer loop does so for every row.
\<close>

primrec replace_row :: "pyfloat \<Rightarrow> pyfloat list \<Rightarrow> pyfloat option list" where
  "replace_row nd [] = []"
| "replace_row nd (v # row) = (if isclose v nd then None else Some v) # replace_row nd row"

primrec replace_nodata :: "pyfloat \<Rightarrow> pyfloat list list \<Rightarrow> pyfloat option list list" where
  "replace_nodata nd [] = []"
| "replace_nodata nd (row # rows) = replace_row nd row # replace_nodata nd rows"

subsection \<open>The script\<close>

definition main :: "args \<Rightarrow> (string \<Rightarrow> error + dataset) \<Rightarrow> error + document" where
  "main a rasterio_open =
     (case rasterio_open (src_path a) of
        Inl e \<Rightarrow> Inl e
      | Inr src \<Rightarrow>
          (case read src (ny a) (nx a) of
             Inl e \<Rightarrow> Inl e
           | Inr band1 \<Rightarrow>
               (case bounds src of (left', bottom', right', top') \<Rightarrow>
                  (case linspace left' right' (nx a) of
                     Inl e \<Rightarrow> Inl e
                   | Inr lons' \<Rightarrow>
                       (case linspace top' bottom' (ny a) of
                          Inl e \<Rightarrow> Inl e
                        | Inr lats' \<Rightarrow>
                            let nodata' = (case nodata a of None \<Rightarrow> src_nodata src
                                           | Some v \<Rightarrow> Some v);
                                elev' = (case nodata' of
                                           None \<Rightarrow> map (map Some) band1
                                         | Some nd \<Rightarrow> replace_nodata nd band1)
                            in Inr \<lparr>bbox = [left', bottom', right', top'],
                                    ncols = nx a, nrows = ny a,
                                    lons = lons', lats = lats', elev = elev'\<rparr>)))))"

subsection \<open>Array shapes and sample inputs\<close>

text \<open>A nested list has the shape \<^verbatim>\<open>(n_rows, n_cols)\<close> of a two-dimensional numpy array.\<close>

definition has_shape :: "'a list list \<Rightarrow> int \<Rightarrow> int \<Rightarrow> bool" where
  "has_shape arr n_rows n_cols =
     (int (length arr) = n_rows \<and> list_all (\<lambda>row. int (length row) = n_cols) arr)"

text \<open>
  Sample inputs for the worked examples below: a \<open>read\<close> that hands out one fixed array
  when, and only when, the requested shape is the array's; the command line with the
  script's default paths; an opener that knows that one path; and a dataset over the
  unit square.
\<close>

definition fixed_read :: "pyfloat list list \<Rightarrow> int \<Rightarrow> int \<Rightarrow> error + pyfloat list list" where
  "fixed_read arr n_rows n_cols =
     (if has_shape arr n_rows n_cols then Inr arr else Inl RasterioIOError)"

definition scenario_args :: "int \<Rightarrow> int \<Rightarrow> pyfloat option \<Rightarrow> args" where
  "scenario_args n_cols n_rows nd =
     \<lparr>src_path = ''data/dem.tif'', out_path = ''data/grid.json'',
      nx = n_cols, ny = n_rows, nodata = nd\<rparr>"

definition scenario_open :: "dataset \<Rightarrow> string \<Rightarrow> error + dataset" where
  "scenario_open src path = (if path = ''data/dem.tif'' then Inr src else Inl RasterioIOError)"

definition unit_square ::
  "nat \<Rightarrow> nat \<Rightarrow> pyfloat option \<Rightarrow> (int \<Rightarrow> int \<Rightarrow> error + pyfloat list list) \<Rightarrow> dataset" where
  "unit_square w h nd rd =
     \<lparr>crs = Some ''EPSG:4326'', bounds = (0, 0, 1, 1), src_nodata = nd,
      width = w, height = h, read = rd\<rparr>"

subsection \<open>The resampling read, as the specification describes it\<close>

text \<open>
  The script obtains the resampled band from
  \<^verbatim>\<open>src.read(1, out_shape=(1, ny, nx), resampling=Resampling.bilinear)\<close>, a call into
  rasterio whose code is not part of the script. The definitions of this subsection
  follow the words of the specification instead (component design, contract and
  algorithm step 1). Source samples are finite and carried as reals.
\<close>

text \<open>
  Modelled from the spec: the index mapping of the missing bilinear resampler. The
  output index is mapped linearly onto the source index space, index \<open>0\<close> to source
  index \<open>0\<close> and index \<open>N - 1\<close> to source index \<open>sourceSize - 1\<close>.
\<close>

definition src_index :: "nat \<Rightarrow> nat \<Rightarrow> nat \<Rightarrow> real" where
  "src_index source_size n i =
     (if n \<le> 1 then 0 else real i * real (source_size - 1) / real (n - 1))"

text \<open>
  Modelled from the spec: interpolation along one axis of the missing bilinear
  resampler. The two nearest source cells are weighted by the fractional distance;
  at the boundary the position is clamped to the nearest edge.
\<close>

definition lerp :: "real list \<Rightarrow> real \<Rightarrow> real" where
  "lerp vs p =
     (let i0 = min (nat \<lfloor>p\<rfloor>) (length vs - 1);
          i1 = min (i0 + 1) (length vs - 1);
          f = p - real i0
      in (1 - f) * vs ! i0 + f * vs ! i1)"

text \<open>
  Modelled from the spec: one output cell of the missing bilinear resampler, the
  weighted average of the up to four nearest source cells, the weights given by the
  fractional distance along each axis.
\<close>

definition bilinear :: "real list list \<Rightarrow> real \<Rightarrow> real \<Rightarrow> real" where
  "bilinear band py px =
     (let y0 = min (nat \<lfloor>py\<rfloor>) (length band - 1);
          y1 = min (y0 + 1) (length band - 1);
          f = py - real y0
      in (1 - f) * lerp (band ! y0) px + f * lerp (band ! y1) px)"

text \<open>
  Modelled from the spec: the resampling step of the missing bilinear resampler. It
  produces an array of shape \<open>(nrows, ncols)\<close>; a non-positive requested dimension is
  the \<open>InvalidDimension\<close> condition, a source of zero width or height the \<open>EmptySource\<close>
  condition.
\<close>

definition resample :: "real list list \<Rightarrow> int \<Rightarrow> int \<Rightarrow> error + real list list" where
  "resample band n_rows n_cols =
     (if n_cols \<le> 0 \<or> n_rows \<le> 0 then Inl InvalidDimension
      else if band = [] \<or> [] \<in> set band then Inl EmptySource
      else Inr (map (\<lambda>i. map (\<lambda>j. bilinear band
                                      (src_index (length band) (nat n_rows) i)
                                      (src_index (length (hd band)) (nat n_cols) j))
                              [0..<nat n_cols])
                    [0..<nat n_rows]))"

text \<open>
  Modelled from the spec: the dataset's \<open>read\<close> over a band of finite samples, the
  missing bilinear resampler with its cells as floats.
\<close>

definition bilinear_read :: "real list list \<Rightarrow> int \<Rightarrow> int \<Rightarrow> error + pyfloat list list" where
  "bilinear_read band n_rows n_cols = map_sum id (map (map Fin)) (resample band n_rows n_cols)"

section \<open>Properties\<close>

subsection \<open>The linear-spacing function\<close>





lemma linspace_one: "linspace s t 1 = Inr [s]"
  by (simp add: linspace_def Let_def)




subsection \<open>The tolerance comparison and the substitution loop\<close>


lemma isclose_NaN: "\<not> isclose v NaN"
  by (cases v) auto




lemma replace_row_none_close:
  "\<forall>v\<in>set row. \<not> isclose v nd \<Longrightarrow> replace_row nd row = map Some row"
  by (induction row) auto




lemma replace_nodata_none_close:
  "\<forall>row\<in>set rows. \<forall>v\<in>set row. \<not> isclose v nd \<Longrightarrow>
   replace_nodata nd rows = map (map Some) rows"
  by (induction rows) (simp_all add: replace_row_none_close)

lemma replace_nodata_NaN: "replace_nodata NaN rows = map (map Some) rows"
  by (simp add: replace_nodata_none_close isclose_NaN)



subsection \<open>The runs of the script\<close>

text \<open>A run returns a document exactly when every step before the dump succeeds.\<close>

lemma main_Inr_iff:
  "main a ro = Inr doc \<longleftrightarrow>
     (\<exists>src band1 xs ys.
        ro (src_path a) = Inr src \<and> read src (ny a) (nx a) = Inr band1 \<and>
        linspace (fst (bounds src)) (fst (snd (snd (bounds src)))) (nx a) = Inr xs \<and>
        linspace (snd (snd (snd (bounds src)))) (fst (snd (bounds src))) (ny a) = Inr ys \<and>
        doc = \<lparr>bbox = [fst (bounds src), fst (snd (bounds src)),
                        fst (snd (snd (bounds src))), snd (snd (snd (bounds src)))],
                ncols = nx a, nrows = ny a, lons = xs, lats = ys,
                elev = (case (case nodata a of None \<Rightarrow> src_nodata src | Some v \<Rightarrow> Some v) of
                          None \<Rightarrow> map (map Some) band1
                        | Some nd \<Rightarrow> replace_nodata nd band1)\<rparr>)"
  unfolding main_def
  by (auto simp: Let_def split: sum.splits prod.splits)

lemma main_Inr:
  assumes "main a ro = Inr doc" "ro (src_path a) = Inr src" "read src (ny a) (nx a) = Inr band1"
    "bounds src = (l, b, r, t)"
  shows "linspace l r (nx a) = Inr (lons doc)" "linspace t b (ny a) = Inr (lats doc)"
    "bbox doc = [l, b, r, t]" "ncols doc = nx a" "nrows doc = ny a"
    "elev doc = (case (case nodata a of None \<Rightarrow> src_nodata src | Some v \<Rightarrow> Some v) of
                   None \<Rightarrow> map (map Some) band1
                 | Some nd \<Rightarrow> replace_nodata nd band1)"
  using assms unfolding main_Inr_iff by auto

lemma main_Inr_read:
  assumes "main a ro = Inr doc" "ro (src_path a) = Inr src"
  shows "\<exists>band1. read src (ny a) (nx a) = Inr band1"
  using assms unfolding main_Inr_iff by auto



lemmas scenario_defs =
  scenario_args_def scenario_open_def unit_square_def fixed_read_def has_shape_def

subsection \<open>Coordinate axes\<close>

text \<open>
  Claim C9. When the requested \<open>ncols\<close> is \<open>1\<close>, the produced \<open>lons\<close> is the
  one-element sequence holding the left bound; when \<open>nrows\<close> is \<open>1\<close>, \<open>lats\<close> is the
  one-element sequence holding the top bound.
\<close>

theorem single_point_axis:
  assumes "main a ro = Inr doc" "ro (src_path a) = Inr src" "bounds src = (l, b, r, t)"
  shows "(nx a = 1 \<longrightarrow> lons doc = [l]) \<and> (ny a = 1 \<longrightarrow> lats doc = [t])"
proof -
  obtain band1 where rd: "read src (ny a) (nx a) = Inr band1"
    using main_Inr_read [OF assms(1,2)] by blast
  note m = main_Inr [OF assms(1,2) rd assms(3)]
  show ?thesis using m(1,2) by (auto simp: linspace_one)
qed

theorem single_point_axis_witness:
  "main (scenario_args 1 1 None) (scenario_open (unit_square 2 2 None (fixed_read [[Fin 25]])))
     = Inr \<lparr>bbox = [0, 0, 1, 1], ncols = 1, nrows = 1, lons = [0], lats = [1],
            elev = [[Some (Fin 25)]]\<rparr> \<and>
   nx (scenario_args 1 1 None) = 1 \<and> ny (scenario_args 1 1 None) = 1 \<and>
   lons \<lparr>bbox = [0, 0, 1, 1], ncols = 1, nrows = 1, lons = [0], lats = [1],
         elev = [[Some (Fin 25)]]\<rparr> = [0::real] \<and>
   lats \<lparr>bbox = [0, 0, 1, 1], ncols = 1, nrows = 1, lons = [0], lats = [1],
         elev = [[Some (Fin 25)]]\<rparr> = [1::real]"
proof -
  let ?a = "scenario_args 1 1 None"
  let ?src = "unit_square 2 2 None (fixed_read [[Fin 25]])"
  let ?doc = "\<lparr>bbox = [0, 0, 1, 1], ncols = 1, nrows = 1, lons = [0], lats = [1],
               elev = [[Some (Fin 25)]]\<rparr>"
  have run: "main ?a (scenario_open ?src) = Inr ?doc"
    by (simp add: scenario_defs main_def linspace_def)
  have opened: "scenario_open ?src (src_path ?a) = Inr ?src"
    by (simp add: scenario_defs)
  have bb: "bounds ?src = (0, 0, 1, 1)"
    by (simp add: scenario_defs)
  show ?thesis
    using single_point_axis [OF run opened bb] run by (simp add: scenario_defs)
qed



subsection \<open>Shape of the document\<close>



subsection \<open>Nodata substitution\<close>



text \<open>
  Claim C10. For every run whose effective nodata value is NaN, the substitution step
  replaces no cell: every cell of \<open>elev\<close>, the cells that are themselves NaN included, is
  returned unchanged and not as the missing-value marker, because the tolerance
  comparison against NaN is always false.
\<close>

theorem nan_nodata_replaces_nothing:
  assumes run: "main a ro = Inr doc" "ro (src_path a) = Inr src"
    and rd: "read src (ny a) (nx a) = Inr band1"
    and nd: "nodata a = Some NaN \<or> (nodata a = None \<and> src_nodata src = Some NaN)"
  shows "elev doc = map (map Some) band1 \<and> (\<forall>row\<in>set (elev doc). None \<notin> set row)"
proof -
  obtain l b r t where bb: "bounds src = (l, b, r, t)" by (cases "bounds src") auto
  have "elev doc = replace_nodata NaN band1"
    using main_Inr(6) [OF run rd bb] nd by auto
  then have "elev doc = map (map Some) band1" by (simp add: replace_nodata_NaN)
  then show ?thesis by auto
qed

theorem nan_nodata_replaces_nothing_witness:
  "main (scenario_args 2 2 None)
     (scenario_open (unit_square 2 2 (Some NaN) (fixed_read [[NaN, Fin 20], [Fin 30, NaN]])))
     = Inr \<lparr>bbox = [0, 0, 1, 1], ncols = 2, nrows = 2, lons = [0, 1], lats = [1, 0],
            elev = [[Some NaN, Some (Fin 20)], [Some (Fin 30), Some NaN]]\<rparr> \<and>
   src_nodata (unit_square 2 2 (Some NaN) (fixed_read [[NaN, Fin 20], [Fin 30, NaN]])) = Some NaN \<and>
   [[Some NaN, Some (Fin 20)], [Some (Fin 30), Some NaN]]
     = map (map Some) [[NaN, Fin 20], [Fin 30, NaN]]"
proof -
  let ?a = "scenario_args 2 2 None"
  let ?arr = "[[NaN, Fin 20], [Fin 30, NaN]]"
  let ?src = "unit_square 2 2 (Some NaN) (fixed_read ?arr)"
  let ?doc = "\<lparr>bbox = [0, 0, 1, 1], ncols = 2, nrows = 2, lons = [0, 1], lats = [1, 0],
               elev = [[Some NaN, Some (Fin 20)], [Some (Fin 30), Some NaN]]\<rparr>"
  have run: "main ?a (scenario_open ?src) = Inr ?doc"
    by (simp add: scenario_defs main_def linspace_def Let_def upt_rec)
  have opened: "scenario_open ?src (src_path ?a) = Inr ?src"
    by (simp add: scenario_defs)
  have rd: "read ?src (ny ?a) (nx ?a) = Inr ?arr"
    by (simp add: scenario_defs)
  have nd: "nodata ?a = Some NaN \<or> (nodata ?a = None \<and> src_nodata ?src = Some NaN)"
    by (simp add: scenario_defs)
  have "elev ?doc = map (map Some) ?arr"
    using nan_nodata_replaces_nothing [OF run opened rd nd] by blast
  then show ?thesis
    using run by (simp add: scenario_defs)
qed

text \<open>
  Claim C4. The effective nodata value is the caller's override when one is given;
  without an override it is the nodata value of the source raster; with neither, no
  substitution happens and \<open>elev\<close> is returned with no cell replaced by the marker.
\<close>

theorem effective_nodata_precedence:
  assumes run: "main a ro = Inr doc" "ro (src_path a) = Inr src"
    and rd: "read src (ny a) (nx a) = Inr band1"
  shows "(\<forall>v. nodata a = Some v \<longrightarrow> elev doc = replace_nodata v band1) \<and>
         (\<forall>v. nodata a = None \<and> src_nodata src = Some v \<longrightarrow>
              elev doc = replace_nodata v band1) \<and>
         (nodata a = None \<and> src_nodata src = None \<longrightarrow>
            elev doc = map (map Some) band1 \<and> (\<forall>row\<in>set (elev doc). None \<notin> set row))"
proof -
  obtain l b r t where bb: "bounds src = (l, b, r, t)" by (cases "bounds src") auto
  show ?thesis
    using main_Inr(6) [OF run rd bb] by auto
qed

theorem effective_nodata_precedence_witness:
  "main (scenario_args 2 1 (Some (Fin 20)))
     (scenario_open (unit_square 2 1 (Some (Fin 30)) (fixed_read [[Fin 20, Fin 30]])))
     = Inr \<lparr>bbox = [0, 0, 1, 1], ncols = 2, nrows = 1, lons = [0, 1], lats = [1],
            elev = [[None, Some (Fin 30)]]\<rparr> \<and>
   [[None, Some (Fin 30)]] = replace_nodata (Fin 20) [[Fin 20, Fin 30]] \<and>
   main (scenario_args 2 1 None)
     (scenario_open (unit_square 2 1 (Some (Fin 30)) (fixed_read [[Fin 20, Fin 30]])))
     = Inr \<lparr>bbox = [0, 0, 1, 1], ncols = 2, nrows = 1, lons = [0, 1], lats = [1],
            elev = [[Some (Fin 20), None]]\<rparr> \<and>
   [[Some (Fin 20), None]] = replace_nodata (Fin 30) [[Fin 20, Fin 30]] \<and>
   main (scenario_args 2 1 None)
     (scenario_open (unit_square 2 1 None (fixed_read [[Fin 20, Fin 30]])))
     = Inr \<lparr>bbox = [0, 0, 1, 1], ncols = 2, nrows = 1, lons = [0, 1], lats = [1],
            elev = [[Some (Fin 20), Some (Fin 30)]]\<rparr> \<and>
   [[Some (Fin 20), Some (Fin 30)]] = map (map Some) [[Fin 20, Fin 30]]"
proof -
  let ?arr = "[[Fin 20, Fin 30]]"
  let ?a1 = "scenario_args 2 1 (Some (Fin 20))"
  let ?a2 = "scenario_args 2 1 None"
  let ?s1 = "unit_square 2 1 (Some (Fin 30)) (fixed_read ?arr)"
  let ?s3 = "unit_square 2 1 None (fixed_read ?arr)"
  let ?d1 = "\<lparr>bbox = [0, 0, 1, 1], ncols = 2, nrows = 1, lons = [0, 1], lats = [1],
              elev = [[None, Some (Fin 30)]]\<rparr>"
  let ?d2 = "\<lparr>bbox = [0, 0, 1, 1], ncols = 2, nrows = 1, lons = [0, 1], lats = [1],
              elev = [[Some (Fin 20), None]]\<rparr>"
  let ?d3 = "\<lparr>bbox = [0, 0, 1, 1], ncols = 2, nrows = 1, lons = [0, 1], lats = [1],
              elev = [[Some (Fin 20), Some (Fin 30)]]\<rparr>"
  have run1: "main ?a1 (scenario_open ?s1) = Inr ?d1"
    by (simp add: scenario_defs main_def linspace_def Let_def upt_rec atol_def rtol_def)
  have run2: "main ?a2 (scenario_open ?s1) = Inr ?d2"
    by (simp add: scenario_defs main_def linspace_def Let_def upt_rec atol_def rtol_def)
  have run3: "main ?a2 (scenario_open ?s3) = Inr ?d3"
    by (simp add: scenario_defs main_def linspace_def Let_def upt_rec)
  have o1: "scenario_open ?s1 (src_path ?a1) = Inr ?s1"
    and o2: "scenario_open ?s1 (src_path ?a2) = Inr ?s1"
    and o3: "scenario_open ?s3 (src_path ?a2) = Inr ?s3"
    by (simp_all add: scenario_defs)
  have r1: "read ?s1 (ny ?a1) (nx ?a1) = Inr ?arr"
    and r2: "read ?s1 (ny ?a2) (nx ?a2) = Inr ?arr"
    and r3: "read ?s3 (ny ?a2) (nx ?a2) = Inr ?arr"
    by (simp_all add: scenario_defs)
  have e1: "elev ?d1 = replace_nodata (Fin 20) ?arr"
    using effective_nodata_precedence [OF run1 o1 r1] by (simp add: scenario_defs)
  have e2: "elev ?d2 = replace_nodata (Fin 30) ?arr"
    using effective_nodata_precedence [OF run2 o2 r2] by (simp add: scenario_defs)
  have e3: "elev ?d3 = map (map Some) ?arr"
    using effective_nodata_precedence [OF run3 o3 r3] by (simp add: scenario_defs)
  show ?thesis
    using run1 run2 run3 e1 e2 e3 by simp
qed

subsection \<open>Invalid requests and unusable sources\<close>







subsection \<open>Runs over the resampling read of the specification\<close>





text \<open>
  Claim C5. Resampling the 2 by 2 source raster with values \<open>[[10, 20], [30, 40]]\<close>,
  bounds \<open>(0, 0, 1, 1)\<close> and no nodata to \<open>ncols = 3\<close>, \<open>nrows = 3\<close> yields
  \<open>lons = [0, 0.5, 1]\<close>, \<open>lats = [1, 0.5, 0]\<close>, the centre cell of \<open>elev\<close> equal to \<open>25\<close>
  (the average of the four corners) and the four corner cells of \<open>elev\<close> equal to the
  source's corner values. The axes are the script's; the cells are those of the
  resampling read as the specification describes it, in the arithmetic of the reals,
  where the centre is \<open>25\<close> exactly.
\<close>

theorem scenario_two_by_two_to_three_by_three:
  "\<exists>doc. main (scenario_args 3 3 None)
            (scenario_open (unit_square 2 2 None (bilinear_read [[10, 20], [30, 40]])))
          = Inr doc \<and>
     lons doc = [0, 1 / 2, 1] \<and> lats doc = [1, 1 / 2, 0] \<and>
     elev doc ! 1 ! 1 = Some (Fin 25) \<and>
     elev doc ! 0 ! 0 = Some (Fin 10) \<and> elev doc ! 0 ! 2 = Some (Fin 20) \<and>
     elev doc ! 2 ! 0 = Some (Fin 30) \<and> elev doc ! 2 ! 2 = Some (Fin 40)"
proof -
  have grid: "resample [[10, 20], [30, 40]] 3 3
                = Inr [[10, 15, 20], [20, 25, 30], [30, 35, 40]]"
    by (simp add: resample_def bilinear_def lerp_def src_index_def Let_def upt_rec)
  have "main (scenario_args 3 3 None)
          (scenario_open (unit_square 2 2 None (bilinear_read [[10, 20], [30, 40]])))
        = Inr \<lparr>bbox = [0, 0, 1, 1], ncols = 3, nrows = 3,
               lons = [0, 1 / 2, 1], lats = [1, 1 / 2, 0],
               elev = [[Some (Fin 10), Some (Fin 15), Some (Fin 20)],
                       [Some (Fin 20), Some (Fin 25), Some (Fin 30)],
                       [Some (Fin 30), Some (Fin 35), Some (Fin 40)]]\<rparr>"
    by (simp add: scenario_args_def scenario_open_def unit_square_def bilinear_read_def grid
        main_def linspace_def Let_def upt_rec)
  then show ?thesis by simp
qed



end

